theory Spec2Isabelle
  imports Complex_Main "HOL-Library.Multiset"
begin

section \<open>Amounts\<close>

text \<open>
  The scripts compute with Python numbers: whole rupee amounts written as integers and
  rates written as decimal fractions. Where the last digits of a result do not matter,
  amounts are modelled as exact rationals: a literal such as \<open>0.05\<close> denotes one twentieth
  and every operation is exact. The savings by slab of tax3.py add rounded products in the
  order of the loop, so they are modelled in double precision, further below.
\<close>

type_synonym currency = rat

section \<open>The tax functions of tax.py\<close>

text \<open>
  \<open>old_tax\<close>: the standard deduction of 50,000 is applied with a clamp at zero and the
  result runs through the chain of slab branches, first match wins.
\<close>

definition old_tax :: "currency \<Rightarrow> currency" where
  "old_tax income =
     (let taxable = max (income - 50000) 0 in
      if taxable \<le> 250000 then 0
      else if taxable \<le> 500000 then (taxable - 250000) * 0.05
      else if taxable \<le> 1000000 then (250000 * 0.05) + (taxable - 500000) * 0.20
      else (250000 * 0.05) + (500000 * 0.20) + (taxable - 1000000) * 0.30)"

text \<open>
  \<open>new_tax\<close>: the deduction of 75,000 is subtracted without a clamp, the rebate test
  returns early, and the slab chain that follows still carries its three low branches.
\<close>

definition new_tax :: "currency \<Rightarrow> currency" where
  "new_tax income =
     (let taxable = income - 75000 in
      if taxable \<le> 1200000 then 0
      else if taxable \<le> 400000 then 0
      else if taxable \<le> 800000 then (taxable - 400000) * 0.05
      else if taxable \<le> 1200000 then (400000 * 0.05) + (taxable - 800000) * 0.10
      else if taxable \<le> 1600000 then
        (400000 * 0.05) + (400000 * 0.10) + (taxable - 1200000) * 0.15
      else if taxable \<le> 2000000 then
        (400000 * 0.05) + (400000 * 0.10) + (400000 * 0.15) + (taxable - 1600000) * 0.20
      else if taxable \<le> 2400000 then
        (400000 * 0.05) + (400000 * 0.10) + (400000 * 0.15) + (400000 * 0.20)
          + (taxable - 2000000) * 0.25
      else
        (400000 * 0.05) + (400000 * 0.10) + (400000 * 0.15) + (400000 * 0.20)
          + (400000 * 0.25) + (taxable - 2400000) * 0.30)"

section \<open>The tax functions of tax2.py and tax3.py\<close>

text \<open>
  Each script carries its own copy of the two functions. The copy of \<open>new_tax\<close> in
  tax2.py writes the 20 percent branch as \<open>taxable - 1200000 - 400000\<close>.
\<close>

definition old_tax2 :: "currency \<Rightarrow> currency" where
  "old_tax2 income =
     (let taxable = max (income - 50000) 0 in
      if taxable \<le> 250000 then 0
      else if taxable \<le> 500000 then (taxable - 250000) * 0.05
      else if taxable \<le> 1000000 then (250000 * 0.05) + (taxable - 500000) * 0.20
      else (250000 * 0.05) + (500000 * 0.20) + (taxable - 1000000) * 0.30)"

definition new_tax2 :: "currency \<Rightarrow> currency" where
  "new_tax2 income =
     (let taxable = income - 75000 in
      if taxable \<le> 1200000 then 0
      else if taxable \<le> 400000 then 0
      else if taxable \<le> 800000 then (taxable - 400000) * 0.05
      else if taxable \<le> 1200000 then (400000 * 0.05) + (taxable - 800000) * 0.10
      else if taxable \<le> 1600000 then
        (400000 * 0.05) + (400000 * 0.10) + (taxable - 1200000) * 0.15
      else if taxable \<le> 2000000 then
        (400000 * 0.05) + (400000 * 0.10) + (400000 * 0.15)
          + (taxable - 1200000 - 400000) * 0.20
      else if taxable \<le> 2400000 then
        (400000 * 0.05) + (400000 * 0.10) + (400000 * 0.15) + (400000 * 0.20)
          + (taxable - 2000000) * 0.25
      else
        (400000 * 0.05) + (400000 * 0.10) + (400000 * 0.15) + (400000 * 0.20)
          + (400000 * 0.25) + (taxable - 2400000) * 0.30)"

definition old_tax3 :: "currency \<Rightarrow> currency" where
  "old_tax3 income =
     (let taxable = max (income - 50000) 0 in
      if taxable \<le> 250000 then 0
      else if taxable \<le> 500000 then (taxable - 250000) * 0.05
      else if taxable \<le> 1000000 then (250000 * 0.05) + (taxable - 500000) * 0.20
      else (250000 * 0.05) + (500000 * 0.20) + (taxable - 1000000) * 0.30)"

definition new_tax3 :: "currency \<Rightarrow> currency" where
  "new_tax3 income =
     (let taxable = income - 75000 in
      if taxable \<le> 1200000 then 0
      else if taxable \<le> 400000 then 0
      else if taxable \<le> 800000 then (taxable - 400000) * 0.05
      else if taxable \<le> 1200000 then (400000 * 0.05) + (taxable - 800000) * 0.10
      else if taxable \<le> 1600000 then
        (400000 * 0.05) + (400000 * 0.10) + (taxable - 1200000) * 0.15
      else if taxable \<le> 2000000 then
        (400000 * 0.05) + (400000 * 0.10) + (400000 * 0.15) + (taxable - 1600000) * 0.20
      else if taxable \<le> 2400000 then
        (400000 * 0.05) + (400000 * 0.10) + (400000 * 0.15) + (400000 * 0.20)
          + (taxable - 2000000) * 0.25
      else
        (400000 * 0.05) + (400000 * 0.10) + (400000 * 0.15) + (400000 * 0.20)
          + (400000 * 0.25) + (taxable - 2400000) * 0.30)"

section \<open>Calls and their outcomes\<close>

text \<open>
  The only failure any of the scripts can meet on numbers is Python's division by zero. An
  outcome is either that error or the value returned.
\<close>

datatype py_error = ZeroDivisionError

definition py_div :: "rat \<Rightarrow> rat \<Rightarrow> py_error + rat" where
  "py_div a b = (if b = 0 then Inl ZeroDivisionError else Inr (a / b))"

text \<open>
  Neither tax function has a \<open>raise\<close> statement or a test of the sign of its argument,
  and subtraction, comparison and multiplication by a constant cannot fail on a number:
  a call of either function on a number returns.
\<close>

definition old_tax_call :: "currency \<Rightarrow> py_error + currency" where
  "old_tax_call income = Inr (old_tax income)"

definition new_tax_call :: "currency \<Rightarrow> py_error + currency" where
  "new_tax_call income = Inr (new_tax income)"

section \<open>The sample average of tax.py\<close>

text \<open>
  The sample is a NumPy array of incomes. \<open>np.mean\<close> of a non-empty array is its sum
  divided by its length; of an empty array it is the float nan, delivered as a value with
  a RuntimeWarning and no exception.
\<close>

datatype np_float = Finite rat | NaN

definition np_mean :: "rat list \<Rightarrow> np_float" where
  "np_mean xs = (if xs = [] then NaN else Finite (sum_list xs / of_nat (length xs)))"

definition avg_saving_sample :: "currency list \<Rightarrow> np_float" where
  "avg_saving_sample incomes_sample =
     (let old_taxes = map old_tax incomes_sample;
          new_taxes = map new_tax incomes_sample;
          tax_savings = map2 (\<lambda>o_tax n_tax. o_tax - n_tax) old_taxes new_taxes
      in np_mean tax_savings)"

section \<open>Python numbers in double precision\<close>

text \<open>
  A Python float is an IEEE 754 double: a number with 53 significant binary digits. Every
  float operation returns the double nearest to the exact result, a tie going to the even
  significand. A double is modelled by the rational it denotes; the exponent is not
  bounded, so overflow, subnormal numbers, infinities and nan are outside the model, and a
  zero has no sign.
\<close>

type_synonym double = rat

text \<open>The number of binary digits of a positive integer, Python's \<open>int.bit_length\<close>.\<close>

function bit_length :: "int \<Rightarrow> int" where
  "bit_length n = (if n \<le> 0 then 0 else 1 + bit_length (n div 2))"
  by pat_completeness auto
termination
  by (relation "measure nat") auto

declare bit_length.simps [simp del]

definition pow2 :: "int \<Rightarrow> rat" where
  "pow2 e = (if 0 \<le> e then 2 ^ nat e else 1 / 2 ^ nat (- e))"

text \<open>For a positive \<open>x\<close>, the exponent \<open>e\<close> with \<open>2 ^ e \<le> x < 2 ^ (e + 1)\<close>.\<close>

definition binary_exponent :: "rat \<Rightarrow> int" where
  "binary_exponent x =
     (if 1 \<le> x then bit_length \<lfloor>x\<rfloor> - 1
      else let k = bit_length \<lfloor>1 / x\<rfloor> - 1
           in if x * pow2 k = 1 then - k else - (k + 1))"

definition round_half_even :: "rat \<Rightarrow> int" where
  "round_half_even q =
     (let f = \<lfloor>q\<rfloor>; r = q - of_int f
      in if r < 1 / 2 then f else if 1 / 2 < r then f + 1
         else if even f then f else f + 1)"

text \<open>
  The double nearest to a number: the number is scaled so that its integer part has 53
  binary digits, rounded to an integer, and scaled back.
\<close>

definition round_double :: "rat \<Rightarrow> double" where
  "round_double x =
     (if x = 0 then 0
      else let a = \<bar>x\<bar>; ulp = pow2 (binary_exponent a - 52)
           in sgn x * (of_int (round_half_even (a / ulp)) * ulp))"

definition fadd :: "double \<Rightarrow> double \<Rightarrow> double" where
  "fadd a b = round_double (a + b)"

definition fsub :: "double \<Rightarrow> double \<Rightarrow> double" where
  "fsub a b = round_double (a - b)"

definition fmul :: "double \<Rightarrow> double \<Rightarrow> double" where
  "fmul a b = round_double (a * b)"


section \<open>The tax functions of tax3.py in double precision\<close>



section \<open>The savings by slab of tax3.py\<close>









text \<open>The inflation-adjusted total: the nominal total divided by one plus the rate.\<close>

definition real_total_savings_AY2425 :: "currency \<Rightarrow> rat \<Rightarrow> py_error + currency" where
  "real_total_savings_AY2425 total_aggregate_savings inflation_rate =
     py_div total_aggregate_savings (1 + inflation_rate)"

section \<open>The GDP estimate of tax3.py\<close>

record gdp_estimate =
  gdp_increase_nominal :: currency
  gdp_increase_percentage :: rat

definition gdp_increase :: "currency \<Rightarrow> rat \<Rightarrow> currency \<Rightarrow> py_error + gdp_estimate" where
  "gdp_increase real_total_savings value_addition_multiplier current_gdp =
     (let increase = real_total_savings * value_addition_multiplier
      in case py_div increase current_gdp of
           Inl e \<Rightarrow> Inl e
         | Inr q \<Rightarrow> Inr \<lparr>gdp_increase_nominal = increase,
             gdp_increase_percentage = q * 100\<rparr>)"

section \<open>The reference algorithm of the specification\<close>

text \<open>
  A slab is a range of taxable income with one marginal rate; no upper bound means the
  slab is unbounded. A regime is a standard deduction, an optional rebate threshold and
  amount, and its slabs in order.
\<close>

record slab =
  lower_bound :: currency
  upper_bound :: "currency option"
  rate :: rat

record regime_config =
  standard_deduction :: currency
  rebate_threshold :: "currency option"
  rebate_amount :: "currency option"
  slabs :: "slab list"

text \<open>
  The two configured regimes, read off the docstrings and the branch thresholds of
  \<open>old_tax\<close> and \<open>new_tax\<close>.
\<close>

definition old_regime :: regime_config where
  "old_regime =
     \<lparr>standard_deduction = 50000, rebate_threshold = None, rebate_amount = None,
      slabs =
        [\<lparr>lower_bound = 0, upper_bound = Some 250000, rate = 0\<rparr>,
         \<lparr>lower_bound = 250000, upper_bound = Some 500000, rate = 0.05\<rparr>,
         \<lparr>lower_bound = 500000, upper_bound = Some 1000000, rate = 0.20\<rparr>,
         \<lparr>lower_bound = 1000000, upper_bound = None, rate = 0.30\<rparr>]\<rparr>"

definition new_regime :: regime_config where
  "new_regime =
     \<lparr>standard_deduction = 75000, rebate_threshold = Some 1200000,
      rebate_amount = Some 60000,
      slabs =
        [\<lparr>lower_bound = 0, upper_bound = Some 400000, rate = 0\<rparr>,
         \<lparr>lower_bound = 400000, upper_bound = Some 800000, rate = 0.05\<rparr>,
         \<lparr>lower_bound = 800000, upper_bound = Some 1200000, rate = 0.10\<rparr>,
         \<lparr>lower_bound = 1200000, upper_bound = Some 1600000, rate = 0.15\<rparr>,
         \<lparr>lower_bound = 1600000, upper_bound = Some 2000000, rate = 0.20\<rparr>,
         \<lparr>lower_bound = 2000000, upper_bound = Some 2400000, rate = 0.25\<rparr>,
         \<lparr>lower_bound = 2400000, upper_bound = None, rate = 0.30\<rparr>]\<rparr>"

text \<open>
  The part of the tax that one slab contributes: its rate times the part of the taxable
  income that falls between its bounds.
\<close>

definition slab_tax :: "currency \<Rightarrow> slab \<Rightarrow> currency" where
  "slab_tax taxable s =
     rate s * ((case upper_bound s of None \<Rightarrow> taxable | Some u \<Rightarrow> min taxable u)
               - min taxable (lower_bound s))"

text \<open>
  The specification's \<open>compute_tax\<close>: clamp the deduction at zero, return 0 at or below
  a rebate threshold, otherwise sum the contributions of the slabs that start below the
  taxable income.
\<close>

definition spec_compute_tax :: "currency \<Rightarrow> regime_config \<Rightarrow> currency" where
  "spec_compute_tax gross_income regime =
     (let taxable = max (gross_income - standard_deduction regime) 0 in
      if (case rebate_threshold regime of None \<Rightarrow> False | Some t \<Rightarrow> taxable \<le> t) then 0
      else sum_list (map (slab_tax taxable)
             (filter (\<lambda>s. lower_bound s < taxable) (slabs regime))))"

text \<open>
  The slab invariant: the sequence is not empty and starts at zero, each slab ends where
  the next begins and the last has no upper bound, every bounded slab has positive width,
  every rate is a fraction between 0 and 1, and the rates do not decrease.
\<close>

fun contiguous :: "slab list \<Rightarrow> bool" where
  "contiguous [] = False"
| "contiguous [s] = (upper_bound s = None)"
| "contiguous (s # t # ss) = (upper_bound s = Some (lower_bound t) \<and> contiguous (t # ss))"

fun well_formed_slabs :: "slab list \<Rightarrow> bool" where
  "well_formed_slabs [] = True"
| "well_formed_slabs (s # ss) =
     ((case upper_bound s of None \<Rightarrow> True | Some u \<Rightarrow> lower_bound s < u)
      \<and> 0 \<le> rate s \<and> rate s \<le> 1 \<and> well_formed_slabs ss)"

fun rates_nondecreasing :: "slab list \<Rightarrow> bool" where
  "rates_nondecreasing [] = True"
| "rates_nondecreasing [s] = True"
| "rates_nondecreasing (s # t # ss) = (rate s \<le> rate t \<and> rates_nondecreasing (t # ss))"

definition slab_invariant :: "slab list \<Rightarrow> bool" where
  "slab_invariant ss =
     (contiguous ss \<and> (case ss of [] \<Rightarrow> False | s # _ \<Rightarrow> lower_bound s = 0)
      \<and> well_formed_slabs ss \<and> rates_nondecreasing ss)"

section \<open>Closed forms and monotonicity of the tax functions\<close>

text \<open>
  Each function is a sum of ramps: one term per slab boundary, each the excess of the
  income over the boundary, weighted by the step in the marginal rate there.
\<close>

lemma old_tax_closed:
  "old_tax income =
     0.05 * max (income - 300000) 0 + 0.15 * max (income - 550000) 0
       + 0.10 * max (income - 1050000) 0"
  by (simp add: old_tax_def Let_def max_def; intro conjI impI; simp add: field_simps)

lemma old_tax_mono: "i1 \<le> i2 \<Longrightarrow> old_tax i1 \<le> old_tax i2"
proof -
  assume le: "i1 \<le> i2"
  have "max (i1 - 300000) 0 \<le> max (i2 - 300000) 0"
    and "max (i1 - 550000) 0 \<le> max (i2 - 550000) 0"
    and "max (i1 - 1050000) 0 \<le> max (i2 - 1050000) 0"
    using le by (simp_all add: max_def)
  then show ?thesis
    unfolding old_tax_closed by (intro add_mono mult_left_mono) simp_all
qed

lemma new_tax_closed:
  "new_tax income =
     (if income \<le> 1275000 then 0
      else 60000 + 0.15 * (income - 1275000) + 0.05 * max (income - 1675000) 0
        + 0.05 * max (income - 2075000) 0 + 0.05 * max (income - 2475000) 0)"
  by (simp add: new_tax_def Let_def max_def; intro conjI impI; simp add: field_simps)

lemma new_tax_above_cliff:
  "1275000 < income \<Longrightarrow> 60000 < new_tax income"
  unfolding new_tax_closed
  by (simp add: max_def add_pos_nonneg)

lemma new_tax_mono: "i1 \<le> i2 \<Longrightarrow> new_tax i1 \<le> new_tax i2"
proof (cases "i2 \<le> 1275000")
  case True
  assume "i1 \<le> i2"
  with True show ?thesis by (simp add: new_tax_closed)
next
  case hi2: False
  assume le: "i1 \<le> i2"
  show ?thesis
  proof (cases "i1 \<le> 1275000")
    case True
    have "0 \<le> new_tax i2" using new_tax_above_cliff [of i2] hi2 by simp
    with True show ?thesis by (simp add: new_tax_closed)
  next
    case False
    have "max (i1 - 1675000) 0 \<le> max (i2 - 1675000) 0"
      and "max (i1 - 2075000) 0 \<le> max (i2 - 2075000) 0"
      and "max (i1 - 2475000) 0 \<le> max (i2 - 2475000) 0"
      using le by (simp_all add: max_def)
    with le have "60000 + 0.15 * (i1 - 1275000) + 0.05 * max (i1 - 1675000) 0
        + 0.05 * max (i1 - 2075000) 0 + 0.05 * max (i1 - 2475000) 0
      \<le> 60000 + 0.15 * (i2 - 1275000) + 0.05 * max (i2 - 1675000) 0
        + 0.05 * max (i2 - 2075000) 0 + 0.05 * max (i2 - 2475000) 0"
      by (intro add_mono mult_left_mono) simp_all
    with False hi2 show ?thesis by (simp only: new_tax_closed if_False)
  qed
qed

text \<open>
  C3. For each regime the tax does not decrease when the gross income grows: for all
  incomes \<open>i1 < i2\<close>, the tax at \<open>i1\<close> is at most the tax at \<open>i2\<close>. At the rebate
  cliff of the new regime the tax at a gross income of 1,275,000 (taxable income exactly at
  the threshold) is 0, and one rupee above it the tax is strictly positive.
\<close>

theorem tax_monotone_with_cliff:
  assumes "i1 < i2"
  shows "old_tax i1 \<le> old_tax i2 \<and> new_tax i1 \<le> new_tax i2
    \<and> new_tax 1275000 = 0 \<and> 0 < new_tax (1275000 + 1)"
proof -
  from assms have le: "i1 \<le> i2" by simp
  have "0 < new_tax (1275000 + 1)"
    using new_tax_above_cliff [of "1275000 + 1"] by simp
  moreover have "new_tax 1275000 = 0" by (simp add: new_tax_closed)
  ultimately show ?thesis
    using old_tax_mono [OF le] new_tax_mono [OF le] by simp
qed

text \<open>The same at the two incomes on either side of the cliff.\<close>

theorem tax_monotone_with_cliff_witness:
  "(1275000 :: rat) < 1275001
   \<and> old_tax 1275000 \<le> old_tax 1275001 \<and> new_tax 1275000 \<le> new_tax 1275001
   \<and> new_tax 1275000 = 0 \<and> 0 < new_tax (1275000 + 1)"
proof -
  have h: "(1275000 :: rat) < 1275001" by simp
  show ?thesis using h tax_monotone_with_cliff [OF h] by simp
qed

section \<open>The tax functions against the reference algorithm\<close>

lemma old_tax_slab_walk: "old_tax income = spec_compute_tax income old_regime"
  by (simp add: old_tax_def spec_compute_tax_def old_regime_def slab_tax_def Let_def max_def min_def)

lemma new_tax_slab_walk: "new_tax income = spec_compute_tax income new_regime"
  by (simp add: new_tax_def spec_compute_tax_def new_regime_def slab_tax_def Let_def max_def min_def)

text \<open>
  C1. For every gross income, \<open>old_tax\<close> and \<open>new_tax\<close> equal the reference algorithm on
  their regime: the taxable income is the gross income less the standard deduction, clamped
  at zero; at or below a rebate threshold the result is 0; otherwise it is the sum over the
  slabs of the rate times the part of the taxable income inside the slab. This holds for
  \<open>new_tax\<close> although it subtracts its deduction without the clamp.
\<close>

theorem tax_functions_refine_reference:
  "old_tax income = spec_compute_tax income old_regime
   \<and> new_tax income = spec_compute_tax income new_regime"
  by (simp add: old_tax_slab_walk new_tax_slab_walk)

text \<open>
  C9. The slab tables of both regimes satisfy the slab invariant: they start at zero, each
  slab begins where the previous one ends, the last slab is unbounded, and the rates do not
  decrease; the rates are 0, 0.05, 0.20, 0.30 for the old regime and 0, 0.05, 0.10, 0.15,
  0.20, 0.25, 0.30 for the new one.
\<close>

theorem configured_slabs_invariant:
  "slab_invariant (slabs old_regime) \<and> slab_invariant (slabs new_regime)
   \<and> map rate (slabs old_regime) = [0, 0.05, 0.20, 0.30]
   \<and> map rate (slabs new_regime) = [0, 0.05, 0.10, 0.15, 0.20, 0.25, 0.30]"
  by (simp add: slab_invariant_def old_regime_def new_regime_def)

section \<open>Worked examples\<close>

text \<open>
  C2, as the code computes it. An income of 750,000 under the old regime owes
  12,500 + (700,000 - 500,000) * 0.20 = 52,500. Under the new regime an income of 1,275,000
  (taxable exactly 1,200,000) owes nothing, and an income of 1,275,001 (taxable 1,200,001)
  owes the two full slabs below and fifteen percent of one rupee:
  20,000 + 40,000 + 1 * 0.15 = 60,000.15.
\<close>

theorem worked_boundary_examples:
  "old_tax 750000 = 52500 \<and> old_tax 750000 = 12500 + (700000 - 500000) * 0.20
   \<and> new_tax 1275000 = 0
   \<and> new_tax 1275001 = 60000.15
   \<and> new_tax 1275001 = 20000 + 40000 + 1 * 0.15"
  by (simp add: old_tax_def new_tax_def)

text \<open>
  The figure 20,000 + 40,000 + 60,000 + 1 * 0.15 = 120,000.15 for the income 1,275,001 is
  not what \<open>new_tax\<close> returns: a summand of 60,000 belongs to no branch that a taxable
  income of 1,200,001 reaches.
\<close>

theorem cliff_example_not_120000_15:
  "new_tax 1275001 \<noteq> 120000.15 \<and> new_tax 1275001 \<noteq> 20000 + 40000 + 60000 + 1 * 0.15"
  by (simp add: new_tax_def)

section \<open>The three copies agree\<close>

text \<open>
  C10. For every income the copies of \<open>old_tax\<close> in tax.py, tax2.py and tax3.py return the
  same amount, and so do the three copies of \<open>new_tax\<close>; the 20 percent branch of tax2.py,
  written with two subtractions, agrees with the single subtraction of the other two.
\<close>

theorem three_copies_agree:
  "old_tax2 income = old_tax income \<and> old_tax3 income = old_tax income
   \<and> new_tax2 income = new_tax income \<and> new_tax3 income = new_tax income"
  by (simp add: old_tax_def old_tax2_def old_tax3_def new_tax_def new_tax2_def new_tax3_def
      Let_def)

section \<open>Negative incomes\<close>

text \<open>
  C5, as the code behaves. For every negative gross income both tax functions return 0
  and raise nothing: \<open>old_tax\<close> clamps the taxable income at zero, and \<open>new_tax\<close> takes
  its rebate branch.
\<close>

theorem negative_income_returns_zero:
  assumes "income < 0"
  shows "old_tax_call income = Inr 0 \<and> new_tax_call income = Inr 0"
  using assms by (simp add: old_tax_call_def new_tax_call_def old_tax_def new_tax_def max_def)

text \<open>The same at an income of -50,000.\<close>

theorem negative_income_returns_zero_witness:
  "(-50000 :: rat) < 0 \<and> old_tax_call (-50000) = Inr 0 \<and> new_tax_call (-50000) = Inr 0"
proof -
  have h: "(-50000 :: rat) < 0" by simp
  show ?thesis using h negative_income_returns_zero [OF h] by simp
qed

text \<open>
  A gross income of -1 is not rejected with an error: each function returns the
  amount 0.
\<close>

theorem negative_income_is_not_rejected:
  "old_tax_call (-1) = Inr 0 \<and> new_tax_call (-1) = Inr 0"
  by (simp add: old_tax_call_def new_tax_call_def old_tax_def new_tax_def)

section \<open>Double precision\<close>

text \<open>
  The rounding is to nearest: the exponent found for a positive number brackets it between
  two powers of two, the result has a significand of 53 binary digits at that exponent, and
  it is no further from the number than half a unit in the last place.
\<close>

lemma bit_length_bounds:
  "0 < n \<Longrightarrow> 0 < bit_length n \<and> 2 ^ nat (bit_length n - 1) \<le> n \<and> n < 2 ^ nat (bit_length n)"
proof (induction n rule: bit_length.induct)
  case (1 n)
  show ?case
  proof (cases "n = 1")
    case True
    then show ?thesis
      by (simp add: bit_length.simps [of 1] bit_length.simps [of 0])
  next
    case False
    with "1.prems" have m: "0 < n div 2" by simp
    define b where "b = bit_length (n div 2)"
    from "1.IH" "1.prems" m
    have IH: "0 < b" "2 ^ nat (b - 1) \<le> n div 2" "n div 2 < 2 ^ nat b"
      by (simp_all add: b_def)
    have bl: "bit_length n = 1 + b"
      using "1.prems" by (subst bit_length.simps) (simp add: b_def)
    have pw: "(2::int) ^ nat b = 2 * 2 ^ nat (b - 1)"
      using IH(1) by (metis Suc_nat_eq_nat_zadd1 add.commute diff_add_cancel diff_ge_0_iff_ge
          int_one_le_iff_zero_less power_Suc)
    have "2 * (n div 2) \<le> n" "n \<le> 2 * (n div 2) + 1" by simp_all
    with IH pw have "2 ^ nat b \<le> n" "n < 2 * 2 ^ nat b" by linarith+
    moreover have "nat (1 + b) = Suc (nat b)" using IH(1) by simp
    ultimately show ?thesis using IH(1) by (simp add: bl)
  qed
qed

lemma pow2_pos: "0 < pow2 e"
  by (simp add: pow2_def)

lemma pow2_nat: "0 \<le> e \<Longrightarrow> pow2 e = 2 ^ nat e"
  by (simp add: pow2_def)

lemma pow2_Suc: "pow2 (e + 1) = 2 * pow2 e"
proof (cases "0 \<le> e")
  case True
  then show ?thesis by (simp add: pow2_def nat_add_distrib)
next
  case False
  then have "nat (- e) = Suc (nat (- (e + 1)))" by simp
  then show ?thesis using False by (simp add: pow2_def)
qed

lemma floor_exponent:
  assumes "1 \<le> y"
  shows "pow2 (bit_length \<lfloor>y\<rfloor> - 1) \<le> y \<and> y < pow2 (bit_length \<lfloor>y\<rfloor>)"
proof -
  let ?n = "\<lfloor>y\<rfloor>"
  from assms have n: "0 < ?n" by simp
  note b = bit_length_bounds [OF n]
  have "(2::rat) ^ nat (bit_length ?n - 1) = of_int (2 ^ nat (bit_length ?n - 1))" by simp
  also have "\<dots> \<le> of_int ?n" using b by (simp only: of_int_le_iff)
  also have "\<dots> \<le> y" by simp
  finally have lo: "pow2 (bit_length ?n - 1) \<le> y" using b by (simp add: pow2_nat)
  have "?n + 1 \<le> 2 ^ nat (bit_length ?n)" using b by simp
  then have "of_int (?n + 1) \<le> (of_int (2 ^ nat (bit_length ?n)) :: rat)"
    by (simp only: of_int_le_iff)
  moreover have "y < of_int (?n + 1)" by linarith
  ultimately have "y < 2 ^ nat (bit_length ?n)" by simp
  then have "y < pow2 (bit_length ?n)" using b by (simp add: pow2_nat)
  with lo show ?thesis by simp
qed

lemma pow2_inverse: "pow2 (- e) * pow2 e = 1"
  by (cases "0 \<le> e"; cases "e = 0"; simp add: pow2_def)

lemma binary_exponent_bounds:
  assumes "0 < x"
  shows "pow2 (binary_exponent x) \<le> x \<and> x < pow2 (binary_exponent x + 1)"
proof (cases "1 \<le> x")
  case True
  with floor_exponent [OF True] show ?thesis by (simp add: binary_exponent_def)
next
  case small: False
  define k where "k = bit_length \<lfloor>1 / x\<rfloor> - 1"
  from small assms have "1 \<le> 1 / x" by simp
  from floor_exponent [OF this]
  have "pow2 k \<le> 1 / x" "1 / x < pow2 (k + 1)" by (simp_all add: k_def)
  with assms have up: "x * pow2 k \<le> 1" and lo: "1 < x * pow2 (k + 1)"
    by (simp_all add: field_simps pow2_pos)
  show ?thesis
  proof (cases "x * pow2 k = 1")
    case True
    then have "x * pow2 k = pow2 (- k) * pow2 k" by (simp add: pow2_inverse)
    then have x: "x = pow2 (- k)" using pow2_pos [of k] by simp
    have "binary_exponent x = - k"
      using small True by (simp add: binary_exponent_def k_def Let_def)
    moreover have "pow2 (- k) < pow2 (- k + 1)"
      using pow2_pos [of "- k"] by (simp only: pow2_Suc; simp)
    ultimately show ?thesis using x by simp
  next
    case False
    have e: "binary_exponent x = - (k + 1)"
      using small False by (simp add: binary_exponent_def k_def Let_def)
    from lo have "pow2 (- (k + 1)) * pow2 (k + 1) < x * pow2 (k + 1)"
      by (simp only: pow2_inverse)
    then have l: "pow2 (- (k + 1)) < x" using pow2_pos [of "k + 1"] by simp
    from up False have "x * pow2 k < pow2 (- k) * pow2 k" by (simp add: pow2_inverse)
    then have u: "x < pow2 (- k)" using pow2_pos [of k] by simp
    from l u show ?thesis by (simp add: e)
  qed
qed

lemma round_half_even_range:
  "\<lfloor>q\<rfloor> \<le> round_half_even q \<and> round_half_even q \<le> \<lfloor>q\<rfloor> + 1"
  by (simp add: round_half_even_def Let_def)

lemma round_half_even_error: "\<bar>of_int (round_half_even q) - q\<bar> \<le> 1 / 2"
proof -
  define r where "r = q - of_int \<lfloor>q\<rfloor>"
  have r: "0 \<le> r" "r < 1" unfolding r_def by linarith+
  have q: "q = of_int \<lfloor>q\<rfloor> + r" by (simp add: r_def)
  consider "r < 1 / 2" | "1 / 2 < r" | "r = 1 / 2" by linarith
  then show ?thesis
  proof cases
    case 1
    then have "round_half_even q = \<lfloor>q\<rfloor>"
      by (simp add: round_half_even_def Let_def r_def)
    then have "of_int (round_half_even q) - q = - r" by (simp add: r_def)
    with r 1 show ?thesis by simp
  next
    case 2
    then have "round_half_even q = \<lfloor>q\<rfloor> + 1"
      by (simp add: round_half_even_def Let_def r_def)
    then have "of_int (round_half_even q) - q = 1 - r" by (simp add: r_def)
    with r 2 show ?thesis by simp
  next
    case 3
    then have "round_half_even q = \<lfloor>q\<rfloor> \<or> round_half_even q = \<lfloor>q\<rfloor> + 1"
      by (simp add: round_half_even_def Let_def r_def)
    then have "of_int (round_half_even q) - q = - r \<or> of_int (round_half_even q) - q = 1 - r"
      by (auto simp: r_def)
    with 3 show ?thesis by auto
  qed
qed

lemma round_double_minus: "round_double (- x) = - round_double x"
  by (simp add: round_double_def Let_def)

lemma round_double_error:
  assumes "x \<noteq> 0"
  shows "\<bar>round_double x - x\<bar> \<le> pow2 (binary_exponent \<bar>x\<bar> - 52) / 2"
proof -
  define u where "u = pow2 (binary_exponent \<bar>x\<bar> - 52)"
  define m where "m = round_half_even (\<bar>x\<bar> / u)"
  have u: "0 < u" by (simp add: u_def pow2_pos)
  have r: "round_double x = sgn x * (of_int m * u)"
    using assms by (simp add: round_double_def Let_def u_def m_def)
  have "round_double x - x = sgn x * (of_int m * u - \<bar>x\<bar>)"
    by (simp add: r right_diff_distrib sgn_mult_abs)
  then have "\<bar>round_double x - x\<bar> = \<bar>of_int m * u - \<bar>x\<bar>\<bar>"
    using assms by (simp add: abs_mult abs_sgn_eq)
  also have "of_int m * u - \<bar>x\<bar> = (of_int m - \<bar>x\<bar> / u) * u"
    using u by (simp add: left_diff_distrib)
  also have "\<bar>(of_int m - \<bar>x\<bar> / u) * u\<bar> = \<bar>of_int m - \<bar>x\<bar> / u\<bar> * u"
    using u by (simp add: abs_mult)
  also have "\<dots> \<le> 1 / 2 * u"
    using round_half_even_error [of "\<bar>x\<bar> / u"] u
    by (intro mult_right_mono) (simp_all add: m_def)
  finally show ?thesis by (simp add: u_def)
qed

lemma pow2_add: "pow2 (a + b) = pow2 a * pow2 b"
proof -
  have p: "pow2 e = power_int 2 e" for e
    by (simp add: pow2_def power_int_def field_simps)
  show ?thesis by (simp add: p power_int_add)
qed

lemma round_double_significand:
  assumes "x \<noteq> 0"
  shows "\<exists>m. round_double x = sgn x * (of_int m * pow2 (binary_exponent \<bar>x\<bar> - 52))
    \<and> 2 ^ 52 \<le> m \<and> m \<le> 2 ^ 53"
proof -
  define e where "e = binary_exponent \<bar>x\<bar>"
  define u where "u = pow2 (e - 52)"
  define q where "q = \<bar>x\<bar> / u"
  have u: "0 < u" by (simp add: u_def pow2_pos)
  from assms have "0 < \<bar>x\<bar>" by simp
  from binary_exponent_bounds [OF this]
  have b: "pow2 e \<le> \<bar>x\<bar>" "\<bar>x\<bar> < pow2 (e + 1)" by (simp_all add: e_def)
  have "pow2 e = pow2 (52 + (e - 52))" by simp
  also have "\<dots> = 2 ^ 52 * u" unfolding u_def pow2_add by (simp add: pow2_def)
  finally have split: "pow2 e = 2 ^ 52 * u" .
  have lo: "2 ^ 52 \<le> q"
    using b(1) u unfolding split q_def by (simp add: field_simps)
  have hi: "q < 2 ^ 53"
    using b(2) u unfolding pow2_Suc split q_def by (simp add: field_simps)
  have "(2 ^ 52 :: int) \<le> \<lfloor>q\<rfloor>" using lo by (simp add: le_floor_iff)
  moreover have "\<lfloor>q\<rfloor> < (2 ^ 53 :: int)" using hi by (simp add: floor_less_iff)
  ultimately have "2 ^ 52 \<le> round_half_even q" "round_half_even q \<le> 2 ^ 53"
    using round_half_even_range [of q] by linarith+
  moreover have "round_double x = sgn x * (of_int (round_half_even q) * u)"
    using assms by (simp add: round_double_def Let_def u_def q_def e_def)
  ultimately show ?thesis unfolding u_def e_def by blast
qed

text \<open>Rules that evaluate the rounding on numerals.\<close>

lemma bit_length_0: "bit_length 0 = 0"
  by (simp add: bit_length.simps)

lemma bit_length_1: "bit_length 1 = 1"
  by (simp add: bit_length.simps [of 1] bit_length_0)

lemma bit_length_numeral: "bit_length (numeral k) = 1 + bit_length (numeral k div 2)"
  by (subst bit_length.simps) simp

lemma floor_rat_numeral: "\<lfloor>numeral a / numeral b :: rat\<rfloor> = numeral a div numeral b"
  using floor_divide_of_int_eq [of "numeral a" "numeral b", where ?'a = rat] by simp

lemmas double_eval = round_double_def binary_exponent_def pow2_def round_half_even_def
  fadd_def fsub_def fmul_def Let_def bit_length_0 bit_length_1 bit_length_numeral
  floor_rat_numeral

text \<open>
  The model of rounding on numbers whose doubles are well known: one tenth, the sum of
  the doubles of one tenth and two tenths, which is not the double of three tenths, and
  a tie, which goes to the even significand.
\<close>

lemma round_double_examples:
  "round_double 0.1 = 3602879701896397 / 2 ^ 55"
  "fadd (round_double 0.1) (round_double 0.2) = 1351079888211149 / 2 ^ 52"
  "round_double 0.3 = 5404319552844595 / 2 ^ 54"
  "round_double 72800000 = 72800000"
  "round_double (2 ^ 53 + 1) = 2 ^ 53"
  "round_double (2 ^ 53 + 3) = 2 ^ 53 + 4"
  "round_double (- 0.1) = - (3602879701896397 / 2 ^ 55)"
  by (simp_all add: double_eval)

section \<open>Savings by slab\<close>








section \<open>Inflation adjustment\<close>

text \<open>
  C6. For every nominal total and every inflation rate above -1, the real total is
  the nominal total divided by one plus the rate; at a rate of 0 it is the nominal total
  itself.
\<close>

theorem inflation_adjustment:
  assumes "-1 < inflation_rate"
  shows "real_total_savings_AY2425 nominal inflation_rate = Inr (nominal / (1 + inflation_rate))
    \<and> real_total_savings_AY2425 nominal 0 = Inr nominal"
  using assms by (simp add: real_total_savings_AY2425_def py_div_def)

text \<open>The same at the script's rate of 5.22 percent.\<close>

theorem inflation_adjustment_witness:
  "(-1 :: rat) < 0.0522
   \<and> real_total_savings_AY2425 10522 0.0522 = Inr 10000
   \<and> real_total_savings_AY2425 10522 0 = Inr 10522"
proof -
  have h: "(-1 :: rat) < 0.0522" by simp
  show ?thesis using h inflation_adjustment [OF h, of 10522] by simp
qed

section \<open>GDP estimate\<close>

text \<open>
  C7, as the code behaves. For every real saving, multiplier and baseline GDP other than
  zero, the increase is the real saving times the multiplier and the percentage is the
  increase divided by the baseline GDP, times 100. The only failure is the division by a
  baseline GDP of zero; a negative baseline or a negative multiplier is computed with like
  any other.
\<close>

theorem gdp_projection:
  "gdp_increase real_saving multiplier baseline_gdp =
     (if baseline_gdp = 0 then Inl ZeroDivisionError
      else Inr \<lparr>gdp_increase_nominal = real_saving * multiplier,
             gdp_increase_percentage = real_saving * multiplier / baseline_gdp * 100\<rparr>)"
  by (simp add: gdp_increase_def py_div_def Let_def)

text \<open>The same at a multiplier of one half, with a positive and with a zero baseline.\<close>

theorem gdp_projection_witness:
  "gdp_increase 1000 0.50 20000
     = Inr \<lparr>gdp_increase_nominal = 500, gdp_increase_percentage = 2.5\<rparr>
   \<and> gdp_increase 1000 0.50 0 = Inl ZeroDivisionError"
  using gdp_projection [of 1000 "0.50" 20000] gdp_projection [of 1000 "0.50" 0] by simp

text \<open>
  A negative multiplier and a negative baseline GDP are not rejected: each yields an
  estimate.
\<close>

theorem gdp_projection_accepts_negative:
  "gdp_increase 1000 (-0.50) 20000
     = Inr \<lparr>gdp_increase_nominal = -500, gdp_increase_percentage = -2.5\<rparr>
   \<and> gdp_increase 1000 0.50 (-20000)
     = Inr \<lparr>gdp_increase_nominal = 500, gdp_increase_percentage = -2.5\<rparr>"
  by (simp add: gdp_increase_def py_div_def Let_def)

section \<open>Sample average\<close>

lemma map2_of_maps: "map2 f (map g xs) (map h xs) = map (\<lambda>x. f (g x) (h x)) xs"
  by (induction xs) simp_all

text \<open>
  C8, as the code behaves. For every non-empty sequence of incomes the average saving is
  the arithmetic mean of old-regime tax minus new-regime tax over the incomes. For the
  empty sequence nothing is raised: the average is nan.
\<close>

theorem sample_average:
  "avg_saving_sample incomes =
     (if incomes = [] then NaN
      else Finite ((\<Sum>i\<leftarrow>incomes. old_tax i - new_tax i) / of_nat (length incomes)))"
  by (simp add: avg_saving_sample_def np_mean_def map2_of_maps Let_def)

text \<open>The same on a sample of three incomes.\<close>

theorem sample_average_witness:
  "avg_saving_sample [750000, 1275001, 2500000] = Finite 137500.05"
  using sample_average [of "[750000, 1275001, 2500000]"]
  by (simp add: old_tax_def new_tax_def)

text \<open>The empty sample does not fail: its average is the value nan.\<close>

theorem empty_sample_average_is_nan:
  "avg_saving_sample [] = NaN"
  by (simp add: avg_saving_sample_def np_mean_def)

end
